theory Spec2Isabelle
  imports Complex_Main
begin

section \<open>Shared data models of the Aethelgard ecosystem (contracts/shared\_models.py)\<close>

text \<open>
  The models are Pydantic v2 \<open>BaseModel\<close> classes. What the source relies on, and what the
  embedding therefore writes out:
  \<^item> the fields of a model are validated one after the other, in the order in which the
    class declares them;
  \<^item> a field is first checked against its declared constraints (\<open>Field(..., ge=, le=,
    min_length=, max_length=, pattern=)\<close>); a \<open>field_validator\<close> in the default (after) mode
    runs only when that check succeeded;
  \<^item> \<open>info.data\<close> is the dict of the fields validated so far: a field that is
    declared later than the one being validated, or whose own validation failed, is not a key
    of it, and \<open>info.data.get(k, d)\<close> is then \<open>d\<close>;
  \<^item> a field left out by the caller takes its declared default, and no validator (of either
    mode) runs on a default;
  \<^item> every failure is collected; construction raises when at least one field failed and
    yields the model otherwise;
  \<^item> assignment to a field of a constructed model is refused only when the class sets
    \<open>model_config = {"frozen": True}\<close>.
  Keyword arguments are taken with their declared Python types (an \<open>int\<close> as \<open>int\<close>, a
  \<open>str\<close> as \<open>string\<close>, nested models as already constructed instances).
\<close>

subsection \<open>Enums\<close>

datatype DifficultyLevel = BEGINNER | INTERMEDIATE | ADVANCED

datatype Mode = COACH | HYBRID | SOCRATIC

datatype Library = CORE_PYTHON | NUMPY | PANDAS | MATPLOTLIB | SEABORN | SCIKIT_LEARN

datatype BloomsLevel = REMEMBER | UNDERSTAND | APPLY | ANALYZE | EVALUATE | CREATE

datatype QuestionType = MULTIPLE_CHOICE | TRUE_FALSE | FILL_BLANK | CODE_OUTPUT | CODE_WRITING

datatype CitationSource = VECTOR | WEB

subsection \<open>Validation errors\<close>

text \<open>
  The \<open>ValueError\<close>s the validators raise, with the values their messages interpolate.
\<close>

datatype message =
    Overall_score_must_equal_sum int int
  | Passes_quality_mismatch bool bool bool bool
  | Multiple_choice_requires_at_least_2_options
  | Multiple_choice_allows_maximum_6_options
  | True_false_requires_True_False
  | Should_not_have_options QuestionType

datatype error_type =
    string_pattern_mismatch
  | string_too_short
  | string_too_long
  | too_short
  | too_long
  | greater_than_equal
  | less_than_equal
  | literal_error
  | frozen_instance
  | value_error message

text \<open>An error names the field it was raised for.\<close>

type_synonym error = "string \<times> error_type"

definition and_then :: "'e + 'a \<Rightarrow> ('a \<Rightarrow> 'e + 'b) \<Rightarrow> 'e + 'b" where
  "and_then r f = (case r of Inl e \<Rightarrow> Inl e | Inr v \<Rightarrow> f v)"

text \<open>
  One field of a model: on success the validated value is stored in the data seen by the
  validators of the later fields, on failure the error is recorded and the data is unchanged.
\<close>

definition field_step ::
  "error + 'a \<Rightarrow> ('a \<Rightarrow> 'd \<Rightarrow> 'd) \<Rightarrow> 'd \<times> error list \<Rightarrow> 'd \<times> error list" where
  "field_step res store st =
     (case res of
        Inl e \<Rightarrow> (fst st, snd st @ [e])
      | Inr v \<Rightarrow> (store v (fst st), snd st))"

text \<open>\<open>info.data.get(k, d)\<close> on the entry of key \<open>k\<close>.\<close>

definition data_get :: "'a option \<Rightarrow> 'a \<Rightarrow> 'a" where
  "data_get entry d = (case entry of None \<Rightarrow> d | Some v \<Rightarrow> v)"

text \<open>\<open>Field(..., ge=lo, le=hi)\<close> on an \<open>int\<close>.\<close>

definition int_ge_le :: "string \<Rightarrow> int \<Rightarrow> int \<Rightarrow> int \<Rightarrow> error + int" where
  "int_ge_le loc lo hi v =
     (if v < lo then Inl (loc, greater_than_equal)
      else if hi < v then Inl (loc, less_than_equal)
      else Inr v)"

text \<open>\<open>Literal[...]\<close> on a \<open>str\<close>.\<close>

definition literal_of :: "string \<Rightarrow> string list \<Rightarrow> string \<Rightarrow> error + string" where
  "literal_of loc allowed v = (if v \<in> set allowed then Inr v else Inl (loc, literal_error))"

text \<open>
  \<open>datetime.utcnow().isoformat() + "Z"\<close>; the clock reading \<open>now\<close> is an input of every
  constructor that may stamp a time.
\<close>

definition utc_stamp :: "string \<Rightarrow> string" where
  "utc_stamp now = now @ ''Z''"

subsection \<open>Citation, CodeExample, AethelgardConcept, GateStatus, Telemetry, ValidationIssue\<close>

text \<open>
  A concept is carried below as a constructed instance; its own field constraints play no
  part in what follows.
\<close>

record Citation =
  source :: CitationSource
  title :: string
  locator :: string
  url :: "string option"
  license :: "string option"

record CodeExample =
  code :: string
  expected_output :: "string option"
  runnable :: bool

record AethelgardConcept =
  concept_id :: string
  title :: string
  problem :: string
  system :: string
  win :: string
  code_examples :: "CodeExample list"
  provisional_citations :: "Citation list"
  mode :: Mode
  bloom :: "BloomsLevel option"
  difficulty :: DifficultyLevel
  prerequisites :: "string list"
  libraries :: "Library list"
  tags :: "string list"
  created_at :: "string option"

record GateStatus =
  name :: string
  passed :: bool
  details :: "string option"

text \<open>
  The \<open>float\<close> measurements of the telemetry are carried as reals; nothing below computes
  with them.
\<close>

record Telemetry =
  run_id :: string
  trace_url :: "string option"
  model :: string
  provider :: string
  prompt_version :: string
  graph_version :: string
  coverage_score :: real
  citation_density :: real
  unique_sources :: int
  mode_ratio :: real
  scaffold_depth :: int
  exec_ok :: bool
  latency_ms :: int
  tokens :: int

record ValidationIssue =
  severity :: string
  category :: string
  message :: string
  suggestion :: "string option"
  location :: "string option"

subsection \<open>QualityReport\<close>

text \<open>The constructed model, its fields in the order of the class body.\<close>

record QualityReport =
  item_id :: string
  item_type :: string
  overall_score :: int
  groundedness_citation_score :: int
  technical_correctness_score :: int
  people_first_pedagogy_score :: int
  psw_actionability_score :: int
  mode_fidelity_score :: int
  self_paced_scaffolding_score :: int
  retrieval_quality_score :: int
  clarity_score :: int
  bloom_alignment_score :: int
  people_first_language_score :: int
  gates :: "GateStatus list"
  telemetry :: Telemetry
  issues :: "ValidationIssue list"
  strengths :: "string list"
  suggestions :: "string list"
  passes_quality :: bool
  validated_at :: string
  validator_version :: string

text \<open>
  The keyword arguments of \<open>QualityReport(...)\<close>. \<open>validated_at\<close> may be passed as
  \<open>None\<close>; \<open>validator_version\<close> has a default and may be left out (\<open>None\<close> here).
\<close>

record QualityReport_kwargs =
  kw_item_id :: string
  kw_item_type :: string
  kw_overall_score :: int
  kw_groundedness_citation_score :: int
  kw_technical_correctness_score :: int
  kw_people_first_pedagogy_score :: int
  kw_psw_actionability_score :: int
  kw_mode_fidelity_score :: int
  kw_self_paced_scaffolding_score :: int
  kw_retrieval_quality_score :: int
  kw_clarity_score :: int
  kw_bloom_alignment_score :: int
  kw_people_first_language_score :: int
  kw_gates :: "GateStatus list"
  kw_telemetry :: Telemetry
  kw_issues :: "ValidationIssue list"
  kw_strengths :: "string list"
  kw_suggestions :: "string list"
  kw_passes_quality :: bool
  kw_validated_at :: "string option"
  kw_validator_version :: "string option"

text \<open>
  \<open>info.data\<close> during the validation of a \<open>QualityReport\<close>: one entry per field,
  \<open>None\<close> while the field is not (or not successfully) validated.
\<close>

record QualityReport_data =
  d_item_id :: "string option"
  d_item_type :: "string option"
  d_overall_score :: "int option"
  d_groundedness_citation_score :: "int option"
  d_technical_correctness_score :: "int option"
  d_people_first_pedagogy_score :: "int option"
  d_psw_actionability_score :: "int option"
  d_mode_fidelity_score :: "int option"
  d_self_paced_scaffolding_score :: "int option"
  d_retrieval_quality_score :: "int option"
  d_clarity_score :: "int option"
  d_bloom_alignment_score :: "int option"
  d_people_first_language_score :: "int option"
  d_gates :: "GateStatus list option"
  d_telemetry :: "Telemetry option"
  d_issues :: "ValidationIssue list option"
  d_strengths :: "string list option"
  d_suggestions :: "string list option"
  d_passes_quality :: "bool option"
  d_validated_at :: "string option"
  d_validator_version :: "string option"

definition empty_data :: QualityReport_data where
  "empty_data =
     \<lparr> d_item_id = None, d_item_type = None, d_overall_score = None,
       d_groundedness_citation_score = None, d_technical_correctness_score = None,
       d_people_first_pedagogy_score = None, d_psw_actionability_score = None,
       d_mode_fidelity_score = None, d_self_paced_scaffolding_score = None,
       d_retrieval_quality_score = None, d_clarity_score = None,
       d_bloom_alignment_score = None, d_people_first_language_score = None,
       d_gates = None, d_telemetry = None, d_issues = None, d_strengths = None,
       d_suggestions = None, d_passes_quality = None, d_validated_at = None,
       d_validator_version = None \<rparr>"

text \<open>\<open>set_validated_at\<close> (mode \<open>before\<close>).\<close>

definition set_validated_at :: "string \<Rightarrow> string option \<Rightarrow> string" where
  "set_validated_at now v = (case v of None \<Rightarrow> utc_stamp now | Some s \<Rightarrow> s)"

text \<open>\<open>validate_overall_score\<close>: the scores are read from \<open>info.data\<close>, default 0.\<close>

definition validate_overall_score :: "int \<Rightarrow> QualityReport_data \<Rightarrow> error + int" where
  "validate_overall_score v data =
     (let scores =
            [ data_get (d_groundedness_citation_score data) 0,
              data_get (d_technical_correctness_score data) 0,
              data_get (d_people_first_pedagogy_score data) 0,
              data_get (d_psw_actionability_score data) 0,
              data_get (d_mode_fidelity_score data) 0,
              data_get (d_self_paced_scaffolding_score data) 0,
              data_get (d_retrieval_quality_score data) 0,
              data_get (d_clarity_score data) 0,
              data_get (d_bloom_alignment_score data) 0,
              data_get (d_people_first_language_score data) 0 ];
          total = sum_list scores
      in if v \<noteq> total
         then Inl (''overall_score'', value_error (Overall_score_must_equal_sum v total))
         else Inr v)"

definition core_gates :: "string set" where
  "core_gates = {''coverage_score'', ''citation_density'', ''exec_ok'', ''scope_ok''}"

text \<open>
  \<open>all(gate.passed for gate in gates if gate.name in core_gates)\<close>.
\<close>

definition gates_pass :: "GateStatus list \<Rightarrow> bool" where
  "gates_pass gs = list_all GateStatus.passed (filter (\<lambda>gate. GateStatus.name gate \<in> core_gates) gs)"

text \<open>\<open>expected_pass\<close> of \<open>validate_passes_quality\<close>, from the two values it reads.\<close>

definition expected_pass :: "int \<Rightarrow> GateStatus list \<Rightarrow> bool" where
  "expected_pass score gs = (85 \<le> score \<and> gates_pass gs)"

definition validate_passes_quality :: "bool \<Rightarrow> QualityReport_data \<Rightarrow> error + bool" where
  "validate_passes_quality v data =
     (let overall = data_get (d_overall_score data) 0;
          gs = data_get (d_gates data) [];
          score_pass = (85 \<le> overall);
          gpass = gates_pass gs;
          expected = (score_pass \<and> gpass)
      in if v \<noteq> expected
         then Inl (''passes_quality'',
                   value_error (Passes_quality_mismatch expected score_pass gpass v))
         else Inr v)"

text \<open>
  The run over the fields of \<open>QualityReport\<close>, in declaration order. Each state is the
  pair of \<open>info.data\<close> and the errors so far.
\<close>

definition QualityReport_fields ::
  "string \<Rightarrow> QualityReport_kwargs \<Rightarrow> QualityReport_data \<times> error list" where
  "QualityReport_fields now kw =
     (let s0 = (empty_data, []);
          s1 = field_step (Inr (kw_item_id kw)) (\<lambda>v d. d\<lparr>d_item_id := Some v\<rparr>) s0;
          s2 = field_step (literal_of ''item_type'' [''content'', ''question''] (kw_item_type kw))
                 (\<lambda>v d. d\<lparr>d_item_type := Some v\<rparr>) s1;
          s3 = field_step
                 (and_then (int_ge_le ''overall_score'' 0 100 (kw_overall_score kw))
                    (\<lambda>v. validate_overall_score v (fst s2)))
                 (\<lambda>v d. d\<lparr>d_overall_score := Some v\<rparr>) s2;
          s4 = field_step
                 (int_ge_le ''groundedness_citation_score'' 0 20
                    (kw_groundedness_citation_score kw))
                 (\<lambda>v d. d\<lparr>d_groundedness_citation_score := Some v\<rparr>) s3;
          s5 = field_step
                 (int_ge_le ''technical_correctness_score'' 0 15
                    (kw_technical_correctness_score kw))
                 (\<lambda>v d. d\<lparr>d_technical_correctness_score := Some v\<rparr>) s4;
          s6 = field_step
                 (int_ge_le ''people_first_pedagogy_score'' 0 15
                    (kw_people_first_pedagogy_score kw))
                 (\<lambda>v d. d\<lparr>d_people_first_pedagogy_score := Some v\<rparr>) s5;
          s7 = field_step
                 (int_ge_le ''psw_actionability_score'' 0 10 (kw_psw_actionability_score kw))
                 (\<lambda>v d. d\<lparr>d_psw_actionability_score := Some v\<rparr>) s6;
          s8 = field_step
                 (int_ge_le ''mode_fidelity_score'' 0 10 (kw_mode_fidelity_score kw))
                 (\<lambda>v d. d\<lparr>d_mode_fidelity_score := Some v\<rparr>) s7;
          s9 = field_step
                 (int_ge_le ''self_paced_scaffolding_score'' 0 10
                    (kw_self_paced_scaffolding_score kw))
                 (\<lambda>v d. d\<lparr>d_self_paced_scaffolding_score := Some v\<rparr>) s8;
          s10 = field_step
                  (int_ge_le ''retrieval_quality_score'' 0 10 (kw_retrieval_quality_score kw))
                  (\<lambda>v d. d\<lparr>d_retrieval_quality_score := Some v\<rparr>) s9;
          s11 = field_step
                  (int_ge_le ''clarity_score'' 0 5 (kw_clarity_score kw))
                  (\<lambda>v d. d\<lparr>d_clarity_score := Some v\<rparr>) s10;
          s12 = field_step
                  (int_ge_le ''bloom_alignment_score'' 0 3 (kw_bloom_alignment_score kw))
                  (\<lambda>v d. d\<lparr>d_bloom_alignment_score := Some v\<rparr>) s11;
          s13 = field_step
                  (int_ge_le ''people_first_language_score'' 0 2
                     (kw_people_first_language_score kw))
                  (\<lambda>v d. d\<lparr>d_people_first_language_score := Some v\<rparr>) s12;
          s14 = field_step (Inr (kw_gates kw)) (\<lambda>v d. d\<lparr>d_gates := Some v\<rparr>) s13;
          s15 = field_step (Inr (kw_telemetry kw)) (\<lambda>v d. d\<lparr>d_telemetry := Some v\<rparr>) s14;
          s16 = field_step (Inr (kw_issues kw)) (\<lambda>v d. d\<lparr>d_issues := Some v\<rparr>) s15;
          s17 = field_step (Inr (kw_strengths kw)) (\<lambda>v d. d\<lparr>d_strengths := Some v\<rparr>) s16;
          s18 = field_step (Inr (kw_suggestions kw)) (\<lambda>v d. d\<lparr>d_suggestions := Some v\<rparr>) s17;
          s19 = field_step (validate_passes_quality (kw_passes_quality kw) (fst s18))
                  (\<lambda>v d. d\<lparr>d_passes_quality := Some v\<rparr>) s18;
          s20 = field_step (Inr (set_validated_at now (kw_validated_at kw)))
                  (\<lambda>v d. d\<lparr>d_validated_at := Some v\<rparr>) s19;
          s21 = field_step (Inr (data_get (kw_validator_version kw) ''2.0''))
                  (\<lambda>v d. d\<lparr>d_validator_version := Some v\<rparr>) s20
      in s21)"

text \<open>
  \<open>QualityReport(**kw)\<close>: the model holds what each field validated to. Every validator of
  the class returns the value it was given, so that is the argument itself, except for a
  \<open>validated_at\<close> of \<open>None\<close> and a \<open>validator_version\<close> left out.
\<close>

definition QualityReport_init ::
  "string \<Rightarrow> QualityReport_kwargs \<Rightarrow> error list + QualityReport" where
  "QualityReport_init now kw =
     (let st = QualityReport_fields now kw
      in if snd st \<noteq> [] then Inl (snd st)
         else Inr
           \<lparr> item_id = kw_item_id kw,
             item_type = kw_item_type kw,
             overall_score = kw_overall_score kw,
             groundedness_citation_score = kw_groundedness_citation_score kw,
             technical_correctness_score = kw_technical_correctness_score kw,
             people_first_pedagogy_score = kw_people_first_pedagogy_score kw,
             psw_actionability_score = kw_psw_actionability_score kw,
             mode_fidelity_score = kw_mode_fidelity_score kw,
             self_paced_scaffolding_score = kw_self_paced_scaffolding_score kw,
             retrieval_quality_score = kw_retrieval_quality_score kw,
             clarity_score = kw_clarity_score kw,
             bloom_alignment_score = kw_bloom_alignment_score kw,
             people_first_language_score = kw_people_first_language_score kw,
             gates = kw_gates kw,
             telemetry = kw_telemetry kw,
             issues = kw_issues kw,
             strengths = kw_strengths kw,
             suggestions = kw_suggestions kw,
             passes_quality = kw_passes_quality kw,
             validated_at = set_validated_at now (kw_validated_at kw),
             validator_version = data_get (kw_validator_version kw) ''2.0'' \<rparr>)"

text \<open>The sum of the ten criterion scores of a report.\<close>

definition criteria_sum :: "QualityReport \<Rightarrow> int" where
  "criteria_sum r =
     groundedness_citation_score r + technical_correctness_score r
     + people_first_pedagogy_score r + psw_actionability_score r + mode_fidelity_score r
     + self_paced_scaffolding_score r + retrieval_quality_score r + clarity_score r
     + bloom_alignment_score r + people_first_language_score r"

subsection \<open>Question\<close>

record Question =
  question_id :: string
  concept_id :: string
  question_text :: string
  question_type :: QuestionType
  options :: "string list option"
  correct_answer :: string
  difficulty :: DifficultyLevel
  blooms_level :: BloomsLevel
  explanation :: "string option"
  hints :: "string list option"
  created_at :: "string option"

text \<open>
  The keyword arguments of \<open>Question(...)\<close>. For the two fields that have a default and a
  validator, leaving the argument out (\<open>None\<close>) is kept apart from passing Python's
  \<open>None\<close> (\<open>Some None\<close>).
\<close>

record Question_kwargs =
  kw_question_id :: string
  kw_concept_id :: string
  kw_question_text :: string
  kw_question_type :: QuestionType
  kw_options :: "string list option option"
  kw_correct_answer :: string
  kw_difficulty :: DifficultyLevel
  kw_blooms_level :: BloomsLevel
  kw_explanation :: "string option"
  kw_hints :: "string list option"
  kw_created_at :: "string option option"

text \<open>\<open>info.data\<close> during the validation of a \<open>Question\<close>.\<close>

record Question_data =
  d_question_id :: "string option"
  d_concept_id :: "string option"
  d_question_text :: "string option"
  d_question_type :: "QuestionType option"
  d_options :: "string list option option"
  d_correct_answer :: "string option"
  d_difficulty :: "DifficultyLevel option"
  d_blooms_level :: "BloomsLevel option"
  d_explanation :: "string option option"
  d_hints :: "string list option option"
  d_created_at :: "string option option"

definition empty_question_data :: Question_data where
  "empty_question_data =
     \<lparr> d_question_id = None, d_concept_id = None, d_question_text = None,
       d_question_type = None, d_options = None, d_correct_answer = None,
       d_difficulty = None, d_blooms_level = None, d_explanation = None, d_hints = None,
       d_created_at = None \<rparr>"

text \<open>
  \<open>pattern=r"^[a-z0-9-]+$"\<close>: a non-empty string of lower-case letters, digits and
  hyphens.
\<close>

definition id_char :: "char \<Rightarrow> bool" where
  "id_char c = (c \<in> set ''abcdefghijklmnopqrstuvwxyz0123456789-'')"

definition str_pattern_id :: "string \<Rightarrow> string \<Rightarrow> error + string" where
  "str_pattern_id loc s =
     (if s \<noteq> [] \<and> list_all id_char s then Inr s else Inl (loc, string_pattern_mismatch))"

text \<open>
  \<open>Field(..., min_length=lo, max_length=hi)\<close> on a \<open>str\<close> (\<open>hi = None\<close>: no upper
  bound). The length is the number of characters of the string.
\<close>

definition str_length :: "string \<Rightarrow> nat \<Rightarrow> nat option \<Rightarrow> string \<Rightarrow> error + string" where
  "str_length loc lo hi s =
     (if length s < lo then Inl (loc, string_too_short)
      else case hi of
             None \<Rightarrow> Inr s
           | Some h \<Rightarrow> if h < length s then Inl (loc, string_too_long) else Inr s)"

text \<open>\<open>QuestionType.value\<close>.\<close>

fun QuestionType_value :: "QuestionType \<Rightarrow> string" where
  "QuestionType_value MULTIPLE_CHOICE = ''multiple_choice''"
| "QuestionType_value TRUE_FALSE = ''true_false''"
| "QuestionType_value FILL_BLANK = ''fill_blank''"
| "QuestionType_value CODE_OUTPUT = ''code_output''"
| "QuestionType_value CODE_WRITING = ''code_writing''"

text \<open>
  \<open>validate_options\<close>: three checks in sequence, each guarded by the question type read
  from \<open>info.data\<close>; \<open>not v\<close> holds for \<open>None\<close> and for the empty list.
\<close>

definition validate_options ::
  "string list option \<Rightarrow> Question_data \<Rightarrow> error + string list option" where
  "validate_options v data =
     (let qt = d_question_type data;
          c1 = (if qt = Some MULTIPLE_CHOICE then
                  (case v of
                     None \<Rightarrow>
                       Inl (''options'', value_error Multiple_choice_requires_at_least_2_options)
                   | Some xs \<Rightarrow>
                       if xs = [] \<or> length xs < 2
                       then Inl (''options'',
                                 value_error Multiple_choice_requires_at_least_2_options)
                       else if 6 < length xs
                       then Inl (''options'',
                                 value_error Multiple_choice_allows_maximum_6_options)
                       else Inr ())
                else Inr ());
          c2 = (if qt = Some TRUE_FALSE then
                  (if v \<noteq> Some [''True'', ''False'']
                   then Inl (''options'', value_error True_false_requires_True_False)
                   else Inr ())
                else Inr ());
          c3 = (case qt of
                  None \<Rightarrow> Inr ()
                | Some t \<Rightarrow>
                    if t \<in> set [FILL_BLANK, CODE_OUTPUT, CODE_WRITING] then
                      (case v of
                         Some xs \<Rightarrow> Inl (''options'', value_error (Should_not_have_options t))
                       | None \<Rightarrow> Inr ())
                    else Inr ())
      in and_then c1 (\<lambda>_. and_then c2 (\<lambda>_. and_then c3 (\<lambda>_. Inr v))))"

text \<open>
  A field with a default: left out, it takes the default and its validator does not run;
  supplied, it is validated.
\<close>

definition with_default :: "'a option \<Rightarrow> 'a \<Rightarrow> ('a \<Rightarrow> error + 'a) \<Rightarrow> error + 'a" where
  "with_default arg dflt validator = (case arg of None \<Rightarrow> Inr dflt | Some v \<Rightarrow> validator v)"

text \<open>\<open>set_created_at\<close> (mode \<open>before\<close>).\<close>

definition set_created_at :: "string \<Rightarrow> string option \<Rightarrow> string option" where
  "set_created_at now v = (case v of None \<Rightarrow> Some (utc_stamp now) | Some s \<Rightarrow> Some s)"

definition Question_fields :: "string \<Rightarrow> Question_kwargs \<Rightarrow> Question_data \<times> error list" where
  "Question_fields now kw =
     (let s0 = (empty_question_data, []);
          s1 = field_step (str_pattern_id ''question_id'' (kw_question_id kw))
                 (\<lambda>v d. d\<lparr>d_question_id := Some v\<rparr>) s0;
          s2 = field_step (str_pattern_id ''concept_id'' (kw_concept_id kw))
                 (\<lambda>v d. d\<lparr>d_concept_id := Some v\<rparr>) s1;
          s3 = field_step (str_length ''question_text'' 10 (Some 500) (kw_question_text kw))
                 (\<lambda>v d. d\<lparr>d_question_text := Some v\<rparr>) s2;
          s4 = field_step (Inr (kw_question_type kw))
                 (\<lambda>v d. d\<lparr>d_question_type := Some v\<rparr>) s3;
          s5 = field_step
                 (with_default (kw_options kw) None (\<lambda>v. validate_options v (fst s4)))
                 (\<lambda>v d. d\<lparr>d_options := Some v\<rparr>) s4;
          s6 = field_step (str_length ''correct_answer'' 1 None (kw_correct_answer kw))
                 (\<lambda>v d. d\<lparr>d_correct_answer := Some v\<rparr>) s5;
          s7 = field_step (Inr (kw_difficulty kw)) (\<lambda>v d. d\<lparr>d_difficulty := Some v\<rparr>) s6;
          s8 = field_step (Inr (kw_blooms_level kw))
                 (\<lambda>v d. d\<lparr>d_blooms_level := Some v\<rparr>) s7;
          s9 = field_step (Inr (kw_explanation kw))
                 (\<lambda>v d. d\<lparr>d_explanation := Some v\<rparr>) s8;
          s10 = field_step (Inr (kw_hints kw)) (\<lambda>v d. d\<lparr>d_hints := Some v\<rparr>) s9;
          s11 = field_step
                  (with_default (kw_created_at kw) None (\<lambda>v. Inr (set_created_at now v)))
                  (\<lambda>v d. d\<lparr>d_created_at := Some v\<rparr>) s10
      in s11)"

text \<open>
  \<open>Question(**kw)\<close>. \<open>validate_options\<close> returns the value it was given, so the
  \<open>options\<close> of the model are the argument, or the default \<open>None\<close>.
\<close>

definition Question_init :: "string \<Rightarrow> Question_kwargs \<Rightarrow> error list + Question" where
  "Question_init now kw =
     (let st = Question_fields now kw
      in if snd st \<noteq> [] then Inl (snd st)
         else Inr
           \<lparr> question_id = kw_question_id kw,
             concept_id = kw_concept_id kw,
             question_text = kw_question_text kw,
             question_type = kw_question_type kw,
             options = (case kw_options kw of None \<Rightarrow> None | Some v \<Rightarrow> v),
             correct_answer = kw_correct_answer kw,
             difficulty = kw_difficulty kw,
             blooms_level = kw_blooms_level kw,
             explanation = kw_explanation kw,
             hints = kw_hints kw,
             created_at =
               (case kw_created_at kw of None \<Rightarrow> None | Some v \<Rightarrow> set_created_at now v) \<rparr>)"

subsection \<open>Batch operations\<close>

text \<open>\<open>AethelgardConcept | Question\<close>.\<close>

datatype item = Concept AethelgardConcept | Quest Question

record BatchValidationRequest =
  items :: "item list"
  validation_type :: string
  strict :: bool

text \<open>\<open>Field(..., min_length=lo, max_length=hi)\<close> on a list.\<close>

definition list_length :: "string \<Rightarrow> nat \<Rightarrow> nat \<Rightarrow> 'a list \<Rightarrow> error + 'a list" where
  "list_length loc lo hi xs =
     (if length xs < lo then Inl (loc, too_short)
      else if hi < length xs then Inl (loc, too_long)
      else Inr xs)"

definition errors_of :: "error + 'a \<Rightarrow> error list" where
  "errors_of r = (case r of Inl e \<Rightarrow> [e] | Inr _ \<Rightarrow> [])"

text \<open>
  \<open>BatchValidationRequest(items=..., validation_type=..., strict=...)\<close>; the last two may
  be left out. No validator of the class reads \<open>info.data\<close>.
\<close>

definition BatchValidationRequest_init ::
  "item list \<Rightarrow> string option \<Rightarrow> bool option \<Rightarrow> error list + BatchValidationRequest" where
  "BatchValidationRequest_init its vt st =
     (let r1 = list_length ''items'' 1 100 its;
          r2 = with_default vt ''full'' (literal_of ''validation_type'' [''quick'', ''full'']);
          errs = errors_of r1 @ errors_of r2
      in if errs \<noteq> [] then Inl errs
         else Inr \<lparr> items = its,
                    validation_type = data_get vt ''full'',
                    strict = data_get st True \<rparr>)"

record BatchValidationResponse =
  total_items :: int
  passed :: int
  failed :: int
  reports :: "QualityReport list"
  timestamp :: string





subsection \<open>Assignment to a field of a constructed model\<close>

text \<open>
  \<open>obj.field = value\<close> on a model instance: refused when the class is frozen, carried out
  on the object otherwise (no validator runs again, \<open>validate_assignment\<close> being unset
  everywhere). The result is the state of that same object after the statement.
\<close>

definition model_setattr :: "bool \<Rightarrow> string \<Rightarrow> ('m \<Rightarrow> 'm) \<Rightarrow> 'm \<Rightarrow> error + 'm" where
  "model_setattr is_frozen loc assign obj =
     (if is_frozen then Inl (loc, frozen_instance) else Inr (assign obj))"

text \<open>
  The \<open>model_config\<close> of the classes: \<open>{"frozen": True}\<close> for \<open>Citation\<close> and
  \<open>CodeExample\<close>, none for the others.
\<close>

definition Citation_frozen :: bool where
  "Citation_frozen = True"

definition CodeExample_frozen :: bool where
  "CodeExample_frozen = True"

definition QualityReport_frozen :: bool where
  "QualityReport_frozen = False"

subsection \<open>The example report of the module\<close>

text \<open>
  The arguments of \<open>example_quality_report()\<close>. The \<open>details\<close> strings are written with
  \<open>>=\<close> where the source has the Unicode sign.
\<close>

definition example_gates :: "GateStatus list" where
  "example_gates =
     [ \<lparr> name = ''coverage_score'', passed = True, details = Some ''0.78 >= 0.65'' \<rparr>,
       \<lparr> name = ''citation_density'', passed = True, details = Some ''1.2 >= 1.0'' \<rparr>,
       \<lparr> name = ''exec_ok'', passed = True,
         details = Some ''All code executed successfully'' \<rparr>,
       \<lparr> name = ''scope_ok'', passed = True,
         details = Some ''All content in approved scope'' \<rparr> ]"

definition example_telemetry :: Telemetry where
  "example_telemetry =
     \<lparr> run_id = ''run_abc123'',
       trace_url = Some ''https://langsmith.example.com/runs/abc123'',
       model = ''gpt-4o-latest'', provider = ''openai'', prompt_version = ''v2.3'',
       graph_version = ''v1.0'', coverage_score = 78 / 100, citation_density = 12 / 10,
       unique_sources = 3, mode_ratio = 22 / 100, scaffold_depth = 2, exec_ok = True,
       latency_ms = 1200, tokens = 1500 \<rparr>"

definition example_issues :: "ValidationIssue list" where
  "example_issues =
     [ \<lparr> severity = ''low'', category = ''people_first_language'',
         message = ''Consider using 'learner' instead of 'user' for consistency'',
         suggestion = Some ''Replace 'user' with 'learner' in problem statement'',
         location = None \<rparr> ]"

definition example_quality_report_kwargs :: QualityReport_kwargs where
  "example_quality_report_kwargs =
     \<lparr> kw_item_id = ''python-variables-01'',
       kw_item_type = ''content'',
       kw_overall_score = 88,
       kw_groundedness_citation_score = 18,
       kw_technical_correctness_score = 14,
       kw_people_first_pedagogy_score = 13,
       kw_psw_actionability_score = 9,
       kw_mode_fidelity_score = 9,
       kw_self_paced_scaffolding_score = 9,
       kw_retrieval_quality_score = 9,
       kw_clarity_score = 4,
       kw_bloom_alignment_score = 2,
       kw_people_first_language_score = 1,
       kw_gates = example_gates,
       kw_telemetry = example_telemetry,
       kw_issues = example_issues,
       kw_strengths =
         [ ''Clear PSW structure with concrete examples'',
           ''Accurate reference model explanation'',
           ''Code examples are runnable and well-chosen'',
           ''Citations properly formatted'' ],
       kw_suggestions =
         [ ''Add example showing mutable vs immutable behavior'',
           ''Include common pitfall: list aliasing'' ],
       kw_passes_quality = True,
       kw_validated_at = None,
       kw_validator_version = None \<rparr>"

text \<open>
  The same arguments with \<open>overall_score=0\<close> and \<open>passes_quality=False\<close>: the ten
  criterion scores still add up to 88.
\<close>

definition criteria_mismatch_kwargs :: QualityReport_kwargs where
  "criteria_mismatch_kwargs =
     example_quality_report_kwargs\<lparr>kw_overall_score := 0, kw_passes_quality := False\<rparr>"

text \<open>
  The example's arguments with a first criterion score of 15 and \<open>overall_score=85\<close>:
  the criterion scores add up to 85, the four core gates have passed and
  \<open>passes_quality\<close> is \<open>True\<close>.
\<close>

definition passing_report_kwargs :: QualityReport_kwargs where
  "passing_report_kwargs =
     example_quality_report_kwargs
       \<lparr>kw_overall_score := 85, kw_groundedness_citation_score := 15\<rparr>"

text \<open>The report these arguments construct when the clock reads 2025-11-06T12:00:00.\<close>

definition accepted_report :: QualityReport where
  "accepted_report =
     \<lparr> item_id = ''python-variables-01'',
       item_type = ''content'',
       overall_score = 0,
       groundedness_citation_score = 18,
       technical_correctness_score = 14,
       people_first_pedagogy_score = 13,
       psw_actionability_score = 9,
       mode_fidelity_score = 9,
       self_paced_scaffolding_score = 9,
       retrieval_quality_score = 9,
       clarity_score = 4,
       bloom_alignment_score = 2,
       people_first_language_score = 1,
       gates = example_gates,
       telemetry = example_telemetry,
       issues = example_issues,
       strengths =
         [ ''Clear PSW structure with concrete examples'',
           ''Accurate reference model explanation'',
           ''Code examples are runnable and well-chosen'',
           ''Citations properly formatted'' ],
       suggestions =
         [ ''Add example showing mutable vs immutable behavior'',
           ''Include common pitfall: list aliasing'' ],
       passes_quality = False,
       validated_at = ''2025-11-06T12:00:00Z'',
       validator_version = ''2.0'' \<rparr>"

text \<open>
  What \<open>QualityReport(...)\<close> accepts, written as a condition on the arguments;
  \<open>QualityReport_init_Inr_iff\<close> below proves it equivalent to the run over the fields.
\<close>

definition QualityReport_accepts :: "QualityReport_kwargs \<Rightarrow> bool" where
  "QualityReport_accepts kw \<longleftrightarrow>
     kw_item_type kw \<in> {''content'', ''question''}
   \<and> kw_overall_score kw = 0
   \<and> 0 \<le> kw_groundedness_citation_score kw \<and> kw_groundedness_citation_score kw \<le> 20
   \<and> 0 \<le> kw_technical_correctness_score kw \<and> kw_technical_correctness_score kw \<le> 15
   \<and> 0 \<le> kw_people_first_pedagogy_score kw \<and> kw_people_first_pedagogy_score kw \<le> 15
   \<and> 0 \<le> kw_psw_actionability_score kw \<and> kw_psw_actionability_score kw \<le> 10
   \<and> 0 \<le> kw_mode_fidelity_score kw \<and> kw_mode_fidelity_score kw \<le> 10
   \<and> 0 \<le> kw_self_paced_scaffolding_score kw \<and> kw_self_paced_scaffolding_score kw \<le> 10
   \<and> 0 \<le> kw_retrieval_quality_score kw \<and> kw_retrieval_quality_score kw \<le> 10
   \<and> 0 \<le> kw_clarity_score kw \<and> kw_clarity_score kw \<le> 5
   \<and> 0 \<le> kw_bloom_alignment_score kw \<and> kw_bloom_alignment_score kw \<le> 3
   \<and> 0 \<le> kw_people_first_language_score kw \<and> kw_people_first_language_score kw \<le> 2
   \<and> \<not> kw_passes_quality kw"

text \<open>
  Gate lists used below: the example's four core gates with \<open>exec_ok\<close> failed, and the
  failed gate \<open>technical_correctness\<close> of contracts/api\_questionforge.py (ERROR 6), whose
  name is not a core gate.
\<close>

definition exec_failed_gates :: "GateStatus list" where
  "exec_failed_gates =
     [ \<lparr> name = ''coverage_score'', passed = True, details = None \<rparr>,
       \<lparr> name = ''citation_density'', passed = True, details = None \<rparr>,
       \<lparr> name = ''exec_ok'', passed = False, details = None \<rparr>,
       \<lparr> name = ''scope_ok'', passed = True, details = None \<rparr> ]"

definition technical_correctness_gate :: GateStatus where
  "technical_correctness_gate =
     \<lparr> name = ''technical_correctness'', passed = False,
       details = Some ''Incorrect answer provided'' \<rparr>"

subsection \<open>The example question of the module and variations of it\<close>

text \<open>The arguments of \<open>example_question()\<close>.\<close>

definition example_question_kwargs :: Question_kwargs where
  "example_question_kwargs =
     \<lparr> kw_question_id = ''q-variables-mc-01'',
       kw_concept_id = ''python-variables-01'',
       kw_question_text = ''What happens when you assign a value to a variable in Python?'',
       kw_question_type = MULTIPLE_CHOICE,
       kw_options = Some (Some
         [ ''Python creates a labeled container to store the value'',
           ''Python creates a name that references an object in memory'',
           ''Python copies the value into a new memory location'',
           ''Python converts the value to a string'' ]),
       kw_correct_answer = ''Python creates a name that references an object in memory'',
       kw_difficulty = BEGINNER,
       kw_blooms_level = UNDERSTAND,
       kw_explanation =
         Some ''Variables in Python are names that reference objects, not containers.'',
       kw_hints = Some [''Think about the reference model, not the box model''],
       kw_created_at = None \<rparr>"

text \<open>The question they construct.\<close>

definition example_question :: Question where
  "example_question =
     \<lparr> question_id = ''q-variables-mc-01'',
       concept_id = ''python-variables-01'',
       question_text = ''What happens when you assign a value to a variable in Python?'',
       question_type = MULTIPLE_CHOICE,
       options = Some
         [ ''Python creates a labeled container to store the value'',
           ''Python creates a name that references an object in memory'',
           ''Python copies the value into a new memory location'',
           ''Python converts the value to a string'' ],
       correct_answer = ''Python creates a name that references an object in memory'',
       difficulty = BEGINNER,
       blooms_level = UNDERSTAND,
       explanation =
         Some ''Variables in Python are names that reference objects, not containers.'',
       hints = Some [''Think about the reference model, not the box model''],
       created_at = None \<rparr>"

text \<open>
  The request of ERROR 4 in contracts/api\_questionforge.py
  (\<open>correct_answer="X", options=["A", "B", "C", "D"]\<close>), the other fields as in the example.
\<close>

definition answer_not_in_options_kwargs :: Question_kwargs where
  "answer_not_in_options_kwargs =
     example_question_kwargs
       \<lparr> kw_options := Some (Some [''A'', ''B'', ''C'', ''D'']), kw_correct_answer := ''X'' \<rparr>"

text \<open>A \<open>true_false\<close> question constructed without the \<open>options\<close> argument.\<close>

definition true_false_without_options_kwargs :: Question_kwargs where
  "true_false_without_options_kwargs =
     example_question_kwargs
       \<lparr> kw_question_type := TRUE_FALSE, kw_options := None, kw_correct_answer := ''True'' \<rparr>"

text \<open>
  The constraints of the fields of a \<open>Question\<close> other than \<open>options\<close>, and what
  \<open>validate_options\<close> accepts for each question type; the lemmas
  \<open>Question_fields_ok_iff\<close> and \<open>validate_options_Inr\<close> below prove both equivalent to
  the definitions above.
\<close>

definition Question_other_fields_ok :: "Question_kwargs \<Rightarrow> bool" where
  "Question_other_fields_ok kw \<longleftrightarrow>
     kw_question_id kw \<noteq> [] \<and> list_all id_char (kw_question_id kw)
   \<and> kw_concept_id kw \<noteq> [] \<and> list_all id_char (kw_concept_id kw)
   \<and> 10 \<le> length (kw_question_text kw) \<and> length (kw_question_text kw) \<le> 500
   \<and> 1 \<le> length (kw_correct_answer kw)"

definition options_ok :: "QuestionType \<Rightarrow> string list option \<Rightarrow> bool" where
  "options_ok t v =
     (case t of
        MULTIPLE_CHOICE \<Rightarrow>
          (case v of None \<Rightarrow> False | Some xs \<Rightarrow> 2 \<le> length xs \<and> length xs \<le> 6)
      | TRUE_FALSE \<Rightarrow> v = Some [''True'', ''False'']
      | _ \<Rightarrow> v = None)"

subsection \<open>Values used with the batch models and with assignment\<close>






text \<open>The statement \<open>report.overall_score = v\<close>.\<close>

definition assign_overall_score :: "int \<Rightarrow> QualityReport \<Rightarrow> QualityReport" where
  "assign_overall_score v r = r\<lparr>overall_score := v\<rparr>"

definition edited_report :: QualityReport where
  "edited_report = accepted_report\<lparr>overall_score := 100\<rparr>"

section \<open>Properties\<close>

subsection \<open>Field steps and field constraints\<close>

lemma field_step_errs:
  "snd (field_step r store st) = [] \<longleftrightarrow> snd st = [] \<and> (\<exists>v. r = Inr v)"
  by (cases r) (simp_all add: field_step_def)

lemma field_step_errs_mem:
  "e \<in> set (snd (field_step r store st)) \<longleftrightarrow> e \<in> set (snd st) \<or> r = Inl e"
  by (cases r) (auto simp: field_step_def)

lemma int_ge_le_Inr: "int_ge_le loc lo hi v = Inr w \<longleftrightarrow> lo \<le> v \<and> v \<le> hi \<and> w = v"
  by (auto simp: int_ge_le_def)

lemma literal_of_Inr: "literal_of loc allowed v = Inr w \<longleftrightarrow> v \<in> set allowed \<and> w = v"
  by (auto simp: literal_of_def)

lemma and_then_Inr: "and_then r f = Inr w \<longleftrightarrow> (\<exists>v. r = Inr v \<and> f v = Inr w)"
  by (cases r) (simp_all add: and_then_def)

lemma with_default_Inr:
  "with_default arg dflt f = Inr w \<longleftrightarrow>
     (case arg of None \<Rightarrow> w = dflt | Some v \<Rightarrow> f v = Inr w)"
  by (cases arg) (auto simp: with_default_def)

lemma with_default_total: "\<exists>w. with_default arg dflt (\<lambda>v. Inr (g v)) = Inr w"
  by (cases arg) (simp_all add: with_default_def)

lemma str_pattern_id_Inr:
  "str_pattern_id loc s = Inr w \<longleftrightarrow> s \<noteq> [] \<and> list_all id_char s \<and> w = s"
  by (auto simp: str_pattern_id_def)

lemma str_length_Inr:
  "str_length loc lo hi s = Inr w \<longleftrightarrow>
     lo \<le> length s \<and> (case hi of None \<Rightarrow> True | Some h \<Rightarrow> length s \<le> h) \<and> w = s"
  by (auto simp: str_length_def split: option.splits)

subsection \<open>The validators of QualityReport\<close>

lemma gates_pass_iff:
  "gates_pass gs \<longleftrightarrow> (\<forall>g\<in>set gs. GateStatus.name g \<in> core_gates \<longrightarrow> GateStatus.passed g)"
  by (auto simp: gates_pass_def list_all_iff)


lemma gates_pass_example: "gates_pass example_gates"
  by (simp add: gates_pass_def example_gates_def core_gates_def)

lemma gates_pass_exec_failed: "\<not> gates_pass exec_failed_gates"
  by (simp add: gates_pass_def exec_failed_gates_def core_gates_def)

lemma technical_correctness_not_core:
  "GateStatus.name technical_correctness_gate \<notin> core_gates"
  by (simp add: technical_correctness_gate_def core_gates_def)

lemma validate_overall_score_Inr:
  "validate_overall_score v data = Inr w \<longleftrightarrow>
     w = v \<and> v = data_get (d_groundedness_citation_score data) 0 +
       data_get (d_technical_correctness_score data) 0 +
       data_get (d_people_first_pedagogy_score data) 0 +
       data_get (d_psw_actionability_score data) 0 +
       data_get (d_mode_fidelity_score data) 0 +
       data_get (d_self_paced_scaffolding_score data) 0 +
       data_get (d_retrieval_quality_score data) 0 +
       data_get (d_clarity_score data) 0 +
       data_get (d_bloom_alignment_score data) 0 +
       data_get (d_people_first_language_score data) 0"
  by (auto simp: validate_overall_score_def Let_def)

lemma validate_passes_quality_Inr:
  "validate_passes_quality v data = Inr w \<longleftrightarrow>
     w = v \<and> v = expected_pass (data_get (d_overall_score data) 0) (data_get (d_gates data) [])"
  by (auto simp: validate_passes_quality_def expected_pass_def Let_def)



subsection \<open>What the construction of a QualityReport accepts\<close>

text \<open>
  When \<open>validate_overall_score\<close> runs, none of the ten criterion fields is validated yet
  (they are declared after \<open>overall_score\<close>), so each lookup yields its default 0 and the
  only \<open>overall_score\<close> that passes is 0. \<open>validate_passes_quality\<close> runs after
  \<open>overall_score\<close> and \<open>gates\<close> and does see both.
\<close>

lemma QualityReport_fields_ok_score:
  assumes "snd (QualityReport_fields now kw) = []"
  shows "kw_overall_score kw = 0"
  using assms
  apply (clarsimp simp: QualityReport_fields_def Let_def field_step_errs)
  apply (simp add: field_step_def and_then_Inr int_ge_le_Inr literal_of_Inr
      validate_overall_score_Inr empty_data_def data_get_def)
  done

lemma QualityReport_fields_ok_verdict:
  assumes "snd (QualityReport_fields now kw) = []"
  shows "kw_passes_quality kw = expected_pass (kw_overall_score kw) (kw_gates kw)"
  using assms
  apply (clarsimp simp: QualityReport_fields_def Let_def field_step_errs)
  apply (simp add: field_step_def and_then_Inr int_ge_le_Inr literal_of_Inr
      validate_overall_score_Inr validate_passes_quality_Inr empty_data_def data_get_def)
  done

lemma QualityReport_fields_ok_D:
  assumes "snd (QualityReport_fields now kw) = []"
  shows "QualityReport_accepts kw"
  using assms
  apply (clarsimp simp: QualityReport_fields_def Let_def field_step_errs)
  apply (simp add: field_step_def and_then_Inr int_ge_le_Inr literal_of_Inr
      validate_overall_score_Inr validate_passes_quality_Inr empty_data_def data_get_def
      QualityReport_accepts_def expected_pass_def)
  done

lemma QualityReport_fields_ok_I:
  assumes "QualityReport_accepts kw"
  shows "snd (QualityReport_fields now kw) = []"
  using assms
  apply (simp add: QualityReport_accepts_def QualityReport_fields_def Let_def field_step_errs)
  apply (simp add: field_step_def and_then_def int_ge_le_def literal_of_def
      validate_overall_score_def validate_passes_quality_def empty_data_def data_get_def)
  apply blast
  done

lemma QualityReport_init_Inr:
  "QualityReport_init now kw = Inr r \<Longrightarrow> snd (QualityReport_fields now kw) = []"
  by (simp add: QualityReport_init_def Let_def split: if_splits)

lemma QualityReport_init_fields:
  "QualityReport_init now kw = Inr r \<Longrightarrow>
     overall_score r = kw_overall_score kw \<and> gates r = kw_gates kw
     \<and> passes_quality r = kw_passes_quality kw"
  by (auto simp add: QualityReport_init_def Let_def split: if_splits)

lemma QualityReport_init_Inl:
  "snd (QualityReport_fields now kw) \<noteq> [] \<Longrightarrow> \<exists>es. QualityReport_init now kw = Inl es"
  by (simp add: QualityReport_init_def Let_def)


lemma QualityReport_accepts_gates:
  "QualityReport_accepts (kw\<lparr>kw_gates := gs\<rparr>) = QualityReport_accepts kw"
  by (simp add: QualityReport_accepts_def)

lemma QualityReport_overall_score_zero:
  "QualityReport_init now kw = Inr r \<Longrightarrow> overall_score r = 0"
  using QualityReport_fields_ok_score[OF QualityReport_init_Inr] QualityReport_init_fields
  by fastforce

lemma validate_overall_score_sees_no_criterion:
  "validate_overall_score v
     (fst (field_step r2 (\<lambda>v d. d\<lparr>d_item_type := Some v\<rparr>)
             (field_step r1 (\<lambda>v d. d\<lparr>d_item_id := Some v\<rparr>) (empty_data, [])))) =
   (if v \<noteq> 0 then Inl (''overall_score'', value_error (Overall_score_must_equal_sum v 0))
    else Inr v)"
  by (cases r1; cases r2)
     (simp_all add: field_step_def validate_overall_score_def empty_data_def data_get_def)

lemma overall_score_nonzero_rejected:
  assumes "0 < kw_overall_score kw" and "kw_overall_score kw \<le> 100"
  shows "(''overall_score'',
          value_error (Overall_score_must_equal_sum (kw_overall_score kw) 0))
           \<in> set (snd (QualityReport_fields now kw))"
  using assms
  by (simp add: QualityReport_fields_def Let_def field_step_errs_mem
      validate_overall_score_sees_no_criterion and_then_def int_ge_le_def)

lemma criteria_mismatch_accepted: "QualityReport_accepts criteria_mismatch_kwargs"
  by (simp add: QualityReport_accepts_def example_quality_report_kwargs_def
      criteria_mismatch_kwargs_def)

lemma accepted_report_constructed:
  "QualityReport_init ''2025-11-06T12:00:00'' criteria_mismatch_kwargs = Inr accepted_report"
  using QualityReport_fields_ok_I[OF criteria_mismatch_accepted, of "''2025-11-06T12:00:00''"]
  by (simp add: QualityReport_init_def Let_def criteria_mismatch_kwargs_def
      example_quality_report_kwargs_def accepted_report_def set_validated_at_def
      utc_stamp_def data_get_def)

text \<open>
  \<open>example_quality_report()\<close> itself, whose \<open>overall_score\<close> of 88 is the sum of its
  criterion scores, is refused: the sum the validator computes is 0.
\<close>

lemma example_quality_report_raises:
  "\<exists>es. QualityReport_init now example_quality_report_kwargs = Inl es
        \<and> (''overall_score'', value_error (Overall_score_must_equal_sum 88 0)) \<in> set es"
proof -
  have m: "(''overall_score'', value_error (Overall_score_must_equal_sum 88 0))
             \<in> set (snd (QualityReport_fields now example_quality_report_kwargs))"
    using overall_score_nonzero_rejected[of example_quality_report_kwargs now]
    by (simp add: example_quality_report_kwargs_def)
  then have "snd (QualityReport_fields now example_quality_report_kwargs) \<noteq> []"
    by auto
  then have "QualityReport_init now example_quality_report_kwargs =
               Inl (snd (QualityReport_fields now example_quality_report_kwargs))"
    by (simp add: QualityReport_init_def Let_def)
  with m show ?thesis by blast
qed


subsection \<open>Claims about QualityReport\<close>

text \<open>
  Claim C1 says that the \<open>overall_score\<close> of every report equals the sum of its ten
  criterion scores and that construction refuses every report for which it does not. The
  construction does not enforce this: with \<open>overall_score=0\<close> it accepts criterion scores
  that add up to 88, because \<open>validate_overall_score\<close> runs before any criterion field is
  part of \<open>info.data\<close>.
\<close>

theorem overall_score_sum_not_enforced:
  "QualityReport_init ''2025-11-06T12:00:00'' criteria_mismatch_kwargs = Inr accepted_report
   \<and> overall_score accepted_report = 0
   \<and> criteria_sum accepted_report = 88"
  using QualityReport_fields_ok_I[OF criteria_mismatch_accepted, of "''2025-11-06T12:00:00''"]
  by (simp add: QualityReport_init_def Let_def criteria_mismatch_kwargs_def
      example_quality_report_kwargs_def accepted_report_def set_validated_at_def
      utc_stamp_def data_get_def criteria_sum_def)

text \<open>
  Given a validated score \<open>s\<close> and validated gates \<open>gs\<close> in \<open>info.data\<close>,
  \<open>validate_passes_quality\<close> accepts exactly the value (\<open>s\<close> at least 85) and (every
  gate of \<open>gs\<close> with a core name has passed).
\<close>

lemma validate_passes_quality_formula:
  "validate_passes_quality v (data\<lparr>d_overall_score := Some s, d_gates := Some gs\<rparr>) = Inr w
     \<longleftrightarrow> w = v \<and> v = (85 \<le> s
        \<and> (\<forall>g\<in>set gs. GateStatus.name g \<in> core_gates \<longrightarrow> GateStatus.passed g))"
  by (simp add: validate_passes_quality_Inr data_get_def expected_pass_def gates_pass_iff)

text \<open>
  In a construction, however, the score it reads is the validated \<open>overall_score\<close>, and
  the only score that validates is 0: no report with \<open>passes_quality\<close> true can be
  constructed at all.
\<close>

lemma no_passing_report:
  "QualityReport_init now kw = Inr r \<Longrightarrow> \<not> passes_quality r"
  using QualityReport_fields_ok_D[OF QualityReport_init_Inr, of now kw r]
    QualityReport_init_fields[of now kw r]
  by (simp add: QualityReport_accepts_def)

lemma field_step_keeps:
  "(\<And>v d. sel (store v d) = sel d) \<Longrightarrow> sel (fst (field_step r store st)) = sel (fst st)"
  by (cases r) (simp_all add: field_step_def)

lemma field_step_Inl_fst: "fst (field_step (Inl e) store st) = fst st"
  by (simp add: field_step_def)

lemma field_step_Inr_fst: "fst (field_step (Inr v) store st) = store v (fst st)"
  by (simp add: field_step_def)

lemma overall_score_step_refused:
  assumes "0 < kw_overall_score kw" and "kw_overall_score kw \<le> 100"
  shows "and_then (int_ge_le ''overall_score'' 0 100 (kw_overall_score kw))
           (\<lambda>v. validate_overall_score v
              (fst (field_step r2 (\<lambda>v d. d\<lparr>d_item_type := Some v\<rparr>)
                      (field_step r1 (\<lambda>v d. d\<lparr>d_item_id := Some v\<rparr>) (empty_data, []))))) =
         Inl (''overall_score'',
              value_error (Overall_score_must_equal_sum (kw_overall_score kw) 0))"
  using assms
  by (simp add: validate_overall_score_sees_no_criterion and_then_def int_ge_le_def)

text \<open>
  When \<open>overall_score\<close> is between 1 and 100 its own validation fails, so it is no key of
  \<open>info.data\<close> when \<open>validate_passes_quality\<close> runs: the score read is the default 0,
  and \<open>passes_quality=True\<close> is refused whatever the gates say.
\<close>

lemma passes_quality_sees_no_score:
  assumes "0 < kw_overall_score kw" and "kw_overall_score kw \<le> 100"
  shows "(''passes_quality'',
          value_error (Passes_quality_mismatch False False (gates_pass (kw_gates kw)) True))
           \<in> set (snd (QualityReport_fields now kw)) \<longleftrightarrow> kw_passes_quality kw"
  apply (simp add: QualityReport_fields_def Let_def field_step_errs_mem
      overall_score_step_refused[OF assms])
  apply (simp add: validate_passes_quality_def Let_def
      field_step_keeps[where sel = d_overall_score] field_step_keeps[where sel = d_gates]
      field_step_Inl_fst field_step_Inr_fst empty_data_def data_get_def int_ge_le_def
      literal_of_def)
  done

text \<open>
  Claim C2 says that \<open>passes_quality\<close> equals (\<open>overall_score\<close> at least 85) and (all
  core gates passed), a score of 85 with the four core gates passed giving true. The
  construction refuses exactly that report: with \<open>overall_score=85\<close>, criterion scores
  that add up to 85, the four core gates passed and \<open>passes_quality=True\<close>, it raises,
  and \<open>validate_passes_quality\<close> itself reports that it expected \<open>False\<close>, the score
  test having failed and the gate test having succeeded.
\<close>

theorem passing_report_refused:
  "kw_overall_score passing_report_kwargs = 85
   \<and> kw_groundedness_citation_score passing_report_kwargs
       + kw_technical_correctness_score passing_report_kwargs
       + kw_people_first_pedagogy_score passing_report_kwargs
       + kw_psw_actionability_score passing_report_kwargs
       + kw_mode_fidelity_score passing_report_kwargs
       + kw_self_paced_scaffolding_score passing_report_kwargs
       + kw_retrieval_quality_score passing_report_kwargs
       + kw_clarity_score passing_report_kwargs
       + kw_bloom_alignment_score passing_report_kwargs
       + kw_people_first_language_score passing_report_kwargs = 85
   \<and> gates_pass (kw_gates passing_report_kwargs)
   \<and> kw_passes_quality passing_report_kwargs
   \<and> (\<exists>es. QualityReport_init now passing_report_kwargs = Inl es
          \<and> (''overall_score'', value_error (Overall_score_must_equal_sum 85 0)) \<in> set es
          \<and> (''passes_quality'', value_error (Passes_quality_mismatch False False True True))
               \<in> set es)"
proof -
  let ?kw = passing_report_kwargs
  have s: "kw_overall_score ?kw = 85"
    and c: "kw_groundedness_citation_score ?kw + kw_technical_correctness_score ?kw
       + kw_people_first_pedagogy_score ?kw + kw_psw_actionability_score ?kw
       + kw_mode_fidelity_score ?kw + kw_self_paced_scaffolding_score ?kw
       + kw_retrieval_quality_score ?kw + kw_clarity_score ?kw
       + kw_bloom_alignment_score ?kw + kw_people_first_language_score ?kw = 85"
    and g: "kw_gates ?kw = example_gates"
    and q: "kw_passes_quality ?kw"
    by (simp_all add: passing_report_kwargs_def example_quality_report_kwargs_def)
  have gp: "gates_pass (kw_gates ?kw)" using g gates_pass_example by simp
  have e1: "(''overall_score'', value_error (Overall_score_must_equal_sum 85 0))
              \<in> set (snd (QualityReport_fields now ?kw))"
    using overall_score_nonzero_rejected[of ?kw now] s by simp
  have e2: "(''passes_quality'', value_error (Passes_quality_mismatch False False True True))
              \<in> set (snd (QualityReport_fields now ?kw))"
    using passes_quality_sees_no_score[of ?kw now] s q gp by simp
  from e1 have "snd (QualityReport_fields now ?kw) \<noteq> []" by auto
  then have "QualityReport_init now ?kw = Inl (snd (QualityReport_fields now ?kw))"
    by (simp add: QualityReport_init_def Let_def)
  with e1 e2 have "\<exists>es. QualityReport_init now ?kw = Inl es
          \<and> (''overall_score'', value_error (Overall_score_must_equal_sum 85 0)) \<in> set es
          \<and> (''passes_quality'', value_error (Passes_quality_mismatch False False True True))
               \<in> set es"
    by blast
  with s c gp q show ?thesis by blast
qed



text \<open>
  Claim C9: when no gate of the list carries a core name (the empty list included), the
  gate part of the verdict is true, so the value \<open>validate_passes_quality\<close> accepts is
  (\<open>overall_score\<close> at least 85) alone, and every constructed report with such a gates
  list has \<open>passes_quality\<close> equal to that.
\<close>

theorem missing_core_gates_pass_vacuously:
  assumes "\<forall>g\<in>set gs. GateStatus.name g \<notin> core_gates"
  shows "gates_pass gs
       \<and> (validate_passes_quality v (data\<lparr>d_gates := Some gs\<rparr>) = Inr w
            \<longleftrightarrow> w = v \<and> v = (85 \<le> data_get (d_overall_score data) 0))
       \<and> (QualityReport_init now kw = Inr r \<and> gates r = gs
            \<longrightarrow> passes_quality r = (85 \<le> overall_score r))"
proof (intro conjI impI)
  show gp: "gates_pass gs" using assms by (simp add: gates_pass_iff)
  show "validate_passes_quality v (data\<lparr>d_gates := Some gs\<rparr>) = Inr w
            \<longleftrightarrow> w = v \<and> v = (85 \<le> data_get (d_overall_score data) 0)"
    using gp by (simp add: validate_passes_quality_Inr expected_pass_def data_get_def)
  assume a: "QualityReport_init now kw = Inr r \<and> gates r = gs"
  then have ok: "QualityReport_init now kw = Inr r" and g: "gates r = gs" by simp_all
  have "kw_passes_quality kw = expected_pass (kw_overall_score kw) (kw_gates kw)"
    using QualityReport_fields_ok_verdict[OF QualityReport_init_Inr[OF ok]] .
  then show "passes_quality r = (85 \<le> overall_score r)"
    using QualityReport_init_fields[OF ok] g gp by (simp add: expected_pass_def)
qed

text \<open>
  The theorem at a gates list that holds the failed gate \<open>technical_correctness\<close> and no
  core gate: score 90 then requires \<open>passes_quality=True\<close>, and the report constructed
  from the earlier arguments with this gates list has \<open>passes_quality\<close> false with its
  score of 0.
\<close>

theorem missing_core_gates_pass_vacuously_witness:
  "gates_pass [technical_correctness_gate]
   \<and> validate_passes_quality True
        (empty_data\<lparr>d_overall_score := Some 90,
                     d_gates := Some [technical_correctness_gate]\<rparr>) = Inr True
   \<and> QualityReport_init ''2025-11-06T12:00:00''
        (criteria_mismatch_kwargs\<lparr>kw_gates := [technical_correctness_gate]\<rparr>)
       = Inr (accepted_report\<lparr>gates := [technical_correctness_gate]\<rparr>)
   \<and> passes_quality (accepted_report\<lparr>gates := [technical_correctness_gate]\<rparr>)
       = (85 \<le> overall_score (accepted_report\<lparr>gates := [technical_correctness_gate]\<rparr>))"
proof -
  have h: "\<forall>g\<in>set [technical_correctness_gate]. GateStatus.name g \<notin> core_gates"
    using technical_correctness_not_core by simp
  note T = missing_core_gates_pass_vacuously[OF h]
  have acc: "QualityReport_accepts
               (criteria_mismatch_kwargs\<lparr>kw_gates := [technical_correctness_gate]\<rparr>)"
    using criteria_mismatch_accepted by (simp only: QualityReport_accepts_gates)
  have c: "QualityReport_init ''2025-11-06T12:00:00''
             (criteria_mismatch_kwargs\<lparr>kw_gates := [technical_correctness_gate]\<rparr>)
             = Inr (accepted_report\<lparr>gates := [technical_correctness_gate]\<rparr>)"
    using QualityReport_fields_ok_I[OF acc, of "''2025-11-06T12:00:00''"]
    by (simp add: QualityReport_init_def Let_def criteria_mismatch_kwargs_def
        example_quality_report_kwargs_def accepted_report_def set_validated_at_def
        utc_stamp_def data_get_def)
  have b: "validate_passes_quality True
        (empty_data\<lparr>d_overall_score := Some 90,
                     d_gates := Some [technical_correctness_gate]\<rparr>) = Inr True"
    using T[where v = True and w = True
        and data = "empty_data\<lparr>d_overall_score := Some 90\<rparr>"]
    by (simp add: data_get_def)
  have d: "passes_quality (accepted_report\<lparr>gates := [technical_correctness_gate]\<rparr>)
       = (85 \<le> overall_score (accepted_report\<lparr>gates := [technical_correctness_gate]\<rparr>))"
    using T[where now = "''2025-11-06T12:00:00''"
        and kw = "criteria_mismatch_kwargs\<lparr>kw_gates := [technical_correctness_gate]\<rparr>"
        and r = "accepted_report\<lparr>gates := [technical_correctness_gate]\<rparr>"] c by simp
  from T b c d show ?thesis by blast
qed

subsection \<open>What the construction of a Question accepts\<close>

lemma validate_options_Inr:
  "d_question_type data = Some t \<Longrightarrow>
     validate_options v data = Inr w \<longleftrightarrow> w = v \<and> options_ok t v"
  by (cases t; cases v)
     (auto simp: validate_options_def options_ok_def Let_def and_then_def split: if_splits)

lemma validate_options_None_multiple_choice:
  "d_question_type data = Some MULTIPLE_CHOICE \<Longrightarrow>
     validate_options None data =
       Inl (''options'', value_error Multiple_choice_requires_at_least_2_options)"
  by (simp add: validate_options_def Let_def and_then_def)

lemma Question_data_type:
  "d_question_type (fst (field_step (Inr t) (\<lambda>v d. d\<lparr>d_question_type := Some v\<rparr>) st)) = Some t"
  by (simp add: field_step_def)

lemma Question_fields_ok_iff:
  "snd (Question_fields now kw) = [] \<longleftrightarrow>
     Question_other_fields_ok kw
     \<and> (case kw_options kw of None \<Rightarrow> True | Some v \<Rightarrow> options_ok (kw_question_type kw) v)"
  apply (simp add: Question_fields_def Let_def field_step_errs with_default_total)
  apply (simp add: str_pattern_id_Inr str_length_Inr
      with_default_Inr validate_options_Inr[OF Question_data_type] Question_other_fields_ok_def
      split: option.splits)
  apply auto
  done

lemma Question_init_Inr_iff:
  "Question_init now kw = Inr q \<longleftrightarrow>
     snd (Question_fields now kw) = []
     \<and> q = \<lparr> question_id = kw_question_id kw,
             concept_id = kw_concept_id kw,
             question_text = kw_question_text kw,
             question_type = kw_question_type kw,
             options = (case kw_options kw of None \<Rightarrow> None | Some v \<Rightarrow> v),
             correct_answer = kw_correct_answer kw,
             difficulty = kw_difficulty kw,
             blooms_level = kw_blooms_level kw,
             explanation = kw_explanation kw,
             hints = kw_hints kw,
             created_at =
               (case kw_created_at kw of None \<Rightarrow> None | Some v \<Rightarrow> set_created_at now v) \<rparr>"
  by (auto simp: Question_init_def Let_def)

lemma Question_init_Inl_iff:
  "(\<exists>es. Question_init now kw = Inl es) \<longleftrightarrow> snd (Question_fields now kw) \<noteq> []"
  by (auto simp: Question_init_def Let_def)

lemma example_question_other_ok: "Question_other_fields_ok example_question_kwargs"
  by (simp add: Question_other_fields_ok_def example_question_kwargs_def id_char_def)

lemma example_question_constructed:
  "Question_init now example_question_kwargs = Inr example_question"
  using example_question_other_ok
  by (simp add: Question_init_Inr_iff Question_fields_ok_iff)
     (simp add: example_question_kwargs_def example_question_def options_ok_def)

lemma multiple_choice_explicit_None:
  assumes "kw_question_type kw = MULTIPLE_CHOICE" and "kw_options kw = Some None"
  shows "(''options'', value_error Multiple_choice_requires_at_least_2_options)
           \<in> set (snd (Question_fields now kw))"
  using assms
  by (simp add: Question_fields_def Let_def field_step_errs_mem with_default_def
      validate_options_None_multiple_choice[OF Question_data_type])

text \<open>
  The parts of the per-type rules that construction does enforce, each for an \<open>options\<close>
  argument that is supplied: a multiple-choice question needs a list of two to six options
  (one option, the empty list and \<open>None\<close> are refused), a true/false question needs exactly
  \<open>["True", "False"]\<close>, and the three other types refuse any list.
\<close>

lemma multiple_choice_supplied_options:
  assumes "Question_init now kw = Inr q" and "kw_question_type kw = MULTIPLE_CHOICE"
    and "kw_options kw = Some v"
  shows "\<exists>xs. options q = Some xs \<and> 2 \<le> length xs \<and> length xs \<le> 6"
  using assms
  by (auto simp: Question_init_Inr_iff Question_fields_ok_iff options_ok_def
      split: option.splits)

lemma multiple_choice_one_option_rejected:
  assumes "kw_question_type kw = MULTIPLE_CHOICE" and "kw_options kw = Some (Some [x])"
  shows "\<exists>es. Question_init now kw = Inl es"
  using assms
  by (auto simp: Question_init_Inl_iff Question_fields_ok_iff options_ok_def)

lemma true_false_supplied_options:
  assumes "Question_init now kw = Inr q" and "kw_question_type kw = TRUE_FALSE"
    and "kw_options kw = Some v"
  shows "options q = Some [''True'', ''False'']"
  using assms
  by (auto simp: Question_init_Inr_iff Question_fields_ok_iff options_ok_def)

lemma true_false_yes_no_rejected:
  assumes "kw_question_type kw = TRUE_FALSE" and "kw_options kw = Some (Some [''Yes'', ''No''])"
  shows "\<exists>es. Question_init now kw = Inl es"
  using assms
  by (auto simp: Question_init_Inl_iff Question_fields_ok_iff options_ok_def)

lemma no_options_types_supplied_list:
  assumes "kw_question_type kw \<in> {FILL_BLANK, CODE_OUTPUT, CODE_WRITING}"
    and "kw_options kw = Some (Some xs)"
  shows "\<exists>es. Question_init now kw = Inl es"
  using assms
  by (auto simp: Question_init_Inl_iff Question_fields_ok_iff options_ok_def)

subsection \<open>Claims about Question\<close>

text \<open>
  Claim C6 says that a multiple-choice question is constructed only with two to six options
  and a \<open>correct_answer\<close> that is one of them. The construction accepts the request that
  contracts/api\_questionforge.py documents as ERROR 4 (answer \<open>X\<close>, options \<open>A\<close> to
  \<open>D\<close>): no validator compares \<open>correct_answer\<close> with \<open>options\<close>.
\<close>

theorem multiple_choice_answer_not_checked:
  "\<exists>q. Question_init now answer_not_in_options_kwargs = Inr q
       \<and> question_type q = MULTIPLE_CHOICE
       \<and> options q = Some [''A'', ''B'', ''C'', ''D'']
       \<and> correct_answer q = ''X''
       \<and> correct_answer q \<notin> set [''A'', ''B'', ''C'', ''D'']"
  using example_question_other_ok
  by (simp add: Question_init_Inr_iff Question_fields_ok_iff answer_not_in_options_kwargs_def
      Question_other_fields_ok_def options_ok_def example_question_kwargs_def)

text \<open>
  Claim C7 says that a true/false question is constructed only with the options
  \<open>["True", "False"]\<close>. Constructed without the \<open>options\<close> argument, a true/false
  question is accepted and has \<open>options\<close> equal to \<open>None\<close>: the validator that would
  refuse does not run on the default.
\<close>

theorem true_false_without_options_accepted:
  "\<exists>q. Question_init now true_false_without_options_kwargs = Inr q
       \<and> question_type q = TRUE_FALSE \<and> options q = None"
  using example_question_other_ok
  by (simp add: Question_init_Inr_iff Question_fields_ok_iff
      true_false_without_options_kwargs_def Question_other_fields_ok_def
      example_question_kwargs_def)

text \<open>
  Claim C10: a question constructed without the \<open>options\<close> argument is accepted exactly
  when its other fields are valid, whatever its type (multiple-choice and true/false
  included), and its \<open>options\<close> are then \<open>None\<close>; whereas a multiple-choice question
  with \<open>options=None\<close> passed explicitly is refused by \<open>validate_options\<close>.
\<close>

theorem omitted_options_bypass_check:
  "((\<exists>q. Question_init now (kw\<lparr>kw_options := None\<rparr>) = Inr q) \<longleftrightarrow> Question_other_fields_ok kw)
   \<and> (Question_init now (kw\<lparr>kw_options := None\<rparr>) = Inr q \<longrightarrow> options q = None)
   \<and> (kw_question_type kw = MULTIPLE_CHOICE \<longrightarrow>
        (\<exists>es. Question_init now (kw\<lparr>kw_options := Some None\<rparr>) = Inl es
           \<and> (''options'', value_error Multiple_choice_requires_at_least_2_options) \<in> set es))"
proof (intro conjI impI)
  show "(\<exists>q. Question_init now (kw\<lparr>kw_options := None\<rparr>) = Inr q) \<longleftrightarrow> Question_other_fields_ok kw"
    by (simp add: Question_init_Inr_iff Question_fields_ok_iff Question_other_fields_ok_def)
  show "options q = None" if "Question_init now (kw\<lparr>kw_options := None\<rparr>) = Inr q"
    using that by (simp add: Question_init_Inr_iff)
  show "\<exists>es. Question_init now (kw\<lparr>kw_options := Some None\<rparr>) = Inl es
           \<and> (''options'', value_error Multiple_choice_requires_at_least_2_options) \<in> set es"
    if mc: "kw_question_type kw = MULTIPLE_CHOICE"
  proof -
    let ?kw = "kw\<lparr>kw_options := Some None\<rparr>"
    have m: "(''options'', value_error Multiple_choice_requires_at_least_2_options)
               \<in> set (snd (Question_fields now ?kw))"
      using mc by (intro multiple_choice_explicit_None) simp_all
    then have "snd (Question_fields now ?kw) \<noteq> []" by auto
    then have "Question_init now ?kw = Inl (snd (Question_fields now ?kw))"
      by (simp add: Question_init_def Let_def)
    with m show ?thesis by blast
  qed
qed

text \<open>
  The theorem at the example question (multiple-choice) and at its true/false variant, both
  without options, and at the example question with \<open>options=None\<close>.
\<close>

theorem omitted_options_bypass_check_witness:
  "Question_other_fields_ok example_question_kwargs
   \<and> (\<exists>q. Question_init ''2025-11-06T12:00:00'' (example_question_kwargs\<lparr>kw_options := None\<rparr>)
            = Inr q
          \<and> question_type q = MULTIPLE_CHOICE \<and> options q = None)
   \<and> (\<exists>q. Question_init ''2025-11-06T12:00:00''
             (true_false_without_options_kwargs\<lparr>kw_options := None\<rparr>) = Inr q
          \<and> question_type q = TRUE_FALSE \<and> options q = None)
   \<and> kw_question_type example_question_kwargs = MULTIPLE_CHOICE
   \<and> (\<exists>es. Question_init ''2025-11-06T12:00:00''
              (example_question_kwargs\<lparr>kw_options := Some None\<rparr>) = Inl es
           \<and> (''options'', value_error Multiple_choice_requires_at_least_2_options) \<in> set es)"
proof -
  note T = omitted_options_bypass_check
  have ok: "Question_other_fields_ok example_question_kwargs"
    by (rule example_question_other_ok)
  have ok2: "Question_other_fields_ok true_false_without_options_kwargs"
    using ok
    by (simp add: Question_other_fields_ok_def true_false_without_options_kwargs_def)
  have mc: "kw_question_type example_question_kwargs = MULTIPLE_CHOICE"
    by (simp add: example_question_kwargs_def)
  have tf: "kw_question_type true_false_without_options_kwargs = TRUE_FALSE"
    by (simp add: true_false_without_options_kwargs_def)
  from T[where now = "''2025-11-06T12:00:00''" and kw = example_question_kwargs] ok
  obtain q1 where
    q1: "Question_init ''2025-11-06T12:00:00'' (example_question_kwargs\<lparr>kw_options := None\<rparr>)
           = Inr q1"
    by blast
  have o1: "options q1 = None"
    using T[where now = "''2025-11-06T12:00:00''" and kw = example_question_kwargs
        and q = q1] q1 by blast
  have t1: "question_type q1 = MULTIPLE_CHOICE"
    using q1 mc by (simp add: Question_init_Inr_iff)
  from T[where now = "''2025-11-06T12:00:00''" and kw = true_false_without_options_kwargs] ok2
  obtain q2 where
    q2: "Question_init ''2025-11-06T12:00:00''
           (true_false_without_options_kwargs\<lparr>kw_options := None\<rparr>) = Inr q2"
    by blast
  have o2: "options q2 = None"
    using T[where now = "''2025-11-06T12:00:00''" and kw = true_false_without_options_kwargs
        and q = q2] q2 by blast
  have t2: "question_type q2 = TRUE_FALSE"
    using q2 tf by (simp add: Question_init_Inr_iff)
  have rej: "\<exists>es. Question_init ''2025-11-06T12:00:00''
              (example_question_kwargs\<lparr>kw_options := Some None\<rparr>) = Inl es
           \<and> (''options'', value_error Multiple_choice_requires_at_least_2_options) \<in> set es"
    using T[where now = "''2025-11-06T12:00:00''" and kw = example_question_kwargs] mc
    by blast
  from ok q1 o1 t1 q2 o2 t2 mc rej show ?thesis by blast
qed

subsection \<open>Claims about the batch models\<close>

text \<open>
  Claim C4: a batch request is constructed exactly when its items sequence has between 1
  and 100 entries (given a valid or omitted \<open>validation_type\<close>); an empty sequence and one
  of more than 100 entries are refused, and the refusal is decided by the length alone, no
  item being looked at.
\<close>

theorem batch_request_size_bounds:
  "(vt \<in> {None, Some ''quick'', Some ''full''} \<longrightarrow>
      BatchValidationRequest_init its vt st =
        (if length its = 0 then Inl [(''items'', too_short)]
         else if 100 < length its then Inl [(''items'', too_long)]
         else Inr \<lparr> items = its, validation_type = data_get vt ''full'',
                    strict = data_get st True \<rparr>))
   \<and> (length its = 0 \<or> 100 < length its \<longrightarrow>
        (\<exists>es. BatchValidationRequest_init its vt st = Inl es))"
  by (auto simp: BatchValidationRequest_init_def Let_def list_length_def errors_of_def
      with_default_def literal_of_def data_get_def split: sum.splits)

text \<open>The theorem at 100 copies of the example question, at no item and at 101 copies.\<close>

theorem batch_request_size_bounds_witness:
  "BatchValidationRequest_init (replicate 100 (Quest example_question)) None None =
     Inr \<lparr> items = replicate 100 (Quest example_question), validation_type = ''full'',
           strict = True \<rparr>
   \<and> BatchValidationRequest_init [] None None = Inl [(''items'', too_short)]
   \<and> BatchValidationRequest_init (replicate 101 (Quest example_question)) None None =
       Inl [(''items'', too_long)]
   \<and> (\<exists>es. BatchValidationRequest_init (replicate 101 (Quest example_question))
              (Some ''fast'') None = Inl es)"
proof -
  note T = batch_request_size_bounds
  have v: "(None :: string option) \<in> {None, Some ''quick'', Some ''full''}" by simp
  have a: "BatchValidationRequest_init (replicate 100 (Quest example_question)) None None =
     Inr \<lparr> items = replicate 100 (Quest example_question), validation_type = ''full'',
           strict = True \<rparr>"
    using T[where vt = None and its = "replicate 100 (Quest example_question)" and st = None] v
    by (simp add: data_get_def)
  have b: "BatchValidationRequest_init [] None None = Inl [(''items'', too_short)]"
    using T[where vt = None and its = "[]" and st = None] v by simp
  have c: "BatchValidationRequest_init (replicate 101 (Quest example_question)) None None =
       Inl [(''items'', too_long)]"
    using T[where vt = None and its = "replicate 101 (Quest example_question)" and st = None] v
    by simp
  have d: "\<exists>es. BatchValidationRequest_init (replicate 101 (Quest example_question))
              (Some ''fast'') None = Inl es"
    using T[where vt = "Some ''fast''" and its = "replicate 101 (Quest example_question)"
        and st = None]
    by simp
  from a b c d show ?thesis by blast
qed







subsection \<open>Claim about immutability\<close>

text \<open>
  Claim C8 says that a report is immutable once constructed. \<open>QualityReport\<close> sets no
  \<open>model_config\<close>, so an assignment to one of its fields is carried out: the report
  constructed earlier has \<open>overall_score\<close> 0 before and 100 after
  \<open>report.overall_score = 100\<close>.
\<close>

theorem quality_report_assignable:
  "QualityReport_init ''2025-11-06T12:00:00'' criteria_mismatch_kwargs = Inr accepted_report
   \<and> model_setattr QualityReport_frozen ''overall_score'' (assign_overall_score 100)
        accepted_report = Inr edited_report
   \<and> overall_score edited_report \<noteq> overall_score accepted_report"
  using accepted_report_constructed
  by (simp add: model_setattr_def QualityReport_frozen_def assign_overall_score_def
      edited_report_def accepted_report_def)

text \<open>
  Claim C8 as amended: only the frozen models, \<open>Citation\<close> and \<open>CodeExample\<close>, are
  immutable after construction, every assignment to one of their fields being refused; an
  assignment to \<open>overall_score\<close> of a \<open>QualityReport\<close> succeeds, replaces that field and
  leaves the other fields as they were, with no validator run again.
\<close>

theorem only_frozen_models_refuse_assignment:
  "model_setattr QualityReport_frozen ''overall_score'' (assign_overall_score v) r =
     Inr (r\<lparr>overall_score := v\<rparr>)
   \<and> model_setattr Citation_frozen loc assign_c c = Inl (loc, frozen_instance)
   \<and> model_setattr CodeExample_frozen loc assign_e e = Inl (loc, frozen_instance)"
  by (simp add: model_setattr_def QualityReport_frozen_def Citation_frozen_def
      CodeExample_frozen_def assign_overall_score_def)


end
